theory Spec2Isabelle
  imports Complex_Main
begin

section \<open>Values and exceptions of the Python scripts\<close>

text \<open>
  The scripts \<^verbatim>\<open>part1/part1.py\<close>, \<^verbatim>\<open>part2/part2.py\<close>, \<^verbatim>\<open>part3/part3.py\<close> and
  \<^verbatim>\<open>part3/vm1-launch-vm2.py\<close> drive the Compute Engine API through
  \<^verbatim>\<open>googleapiclient\<close>. Every response of the API is a parsed JSON document, so the
  values the scripts inspect are JSON values. A dictionary is kept as the list of its
  items (keys are distinct in a parsed document; a lookup takes the first item of a key).
  JSON numbers are kept as integers: for every operation modelled below (subscripting,
  \<^verbatim>\<open>.get\<close>, truth value) a float behaves as an integer does.
\<close>

datatype json =
    JNull
  | JBool bool
  | JInt int
  | JStr string
  | JList "json list"
  | JDict "(string \<times> json) list"

text \<open>
  The exceptions the scripts can see. \<open>HttpError\<close> carries the status of
  \<^verbatim>\<open>e.resp.status\<close> and the content of the response; \<open>RuntimeError\<close> carries its single
  argument. \<open>OtherError\<close> stands for every other subclass of \<^verbatim>\<open>Exception\<close> a
  transport can raise, \<open>Interrupt\<close> for the subclasses of \<^verbatim>\<open>BaseException\<close> outside
  \<^verbatim>\<open>Exception\<close> (\<^verbatim>\<open>KeyboardInterrupt\<close>, \<^verbatim>\<open>SystemExit\<close>).
\<close>

datatype exn =
    HttpError int string
  | RuntimeError json
  | KeyError json
  | IndexError
  | TypeError
  | AttributeError
  | OtherError string
  | Interrupt

fun is_Exception :: "exn \<Rightarrow> bool" where
  "is_Exception Interrupt = False"
| "is_Exception _ = True"

fun is_HttpError :: "exn \<Rightarrow> bool" where
  "is_HttpError (HttpError _ _) = True"
| "is_HttpError _ = False"

fun py_truthy :: "json \<Rightarrow> bool" where
  "py_truthy JNull = False"
| "py_truthy (JBool b) = b"
| "py_truthy (JInt n) = (n \<noteq> 0)"
| "py_truthy (JStr s) = (s \<noteq> [])"
| "py_truthy (JList xs) = (xs \<noteq> [])"
| "py_truthy (JDict kvs) = (kvs \<noteq> [])"

text \<open>\<^verbatim>\<open>x[key]\<close> with a string key.\<close>

fun py_getitem :: "json \<Rightarrow> string \<Rightarrow> exn + json" where
  "py_getitem (JDict kvs) k =
     (case map_of kvs k of None \<Rightarrow> Inl (KeyError (JStr k)) | Some v \<Rightarrow> Inr v)"
| "py_getitem _ k = Inl TypeError"

text \<open>
  \<^verbatim>\<open>x[0]\<close>. A list or a string gives its first element (a one-character string for a
  string) or raises IndexError when empty; a dictionary of string keys has no key 0.
\<close>

fun py_getitem0 :: "json \<Rightarrow> exn + json" where
  "py_getitem0 (JList []) = Inl IndexError"
| "py_getitem0 (JList (x # xs)) = Inr x"
| "py_getitem0 (JStr []) = Inl IndexError"
| "py_getitem0 (JStr (c # cs)) = Inr (JStr [c])"
| "py_getitem0 (JDict kvs) = Inl (KeyError (JInt 0))"
| "py_getitem0 _ = Inl TypeError"

text \<open>\<^verbatim>\<open>x.get(key, default)\<close>: only a dictionary has the method.\<close>

fun py_get :: "json \<Rightarrow> string \<Rightarrow> json \<Rightarrow> exn + json" where
  "py_get (JDict kvs) k d = (case map_of kvs k of None \<Rightarrow> Inr d | Some v \<Rightarrow> Inr v)"
| "py_get _ k d = Inl AttributeError"

text \<open>\<^verbatim>\<open>for d in x\<close>: the elements of a list, the keys of a dictionary, the characters
  of a string; anything else is not iterable.\<close>

fun py_iter :: "json \<Rightarrow> exn + json list" where
  "py_iter (JList xs) = Inr xs"
| "py_iter (JDict kvs) = Inr (map (\<lambda>kv. JStr (fst kv)) kvs)"
| "py_iter (JStr s) = Inr (map (\<lambda>c. JStr [c]) s)"
| "py_iter _ = Inl TypeError"

text \<open>Sequencing of two steps that may raise.\<close>

definition and_then :: "exn + 'a \<Rightarrow> ('a \<Rightarrow> exn + 'b) \<Rightarrow> exn + 'b" where
  "and_then r f = (case r of Inl e \<Rightarrow> Inl e | Inr v \<Rightarrow> f v)"

section \<open>part1: the address of an instance\<close>

text \<open>
  \<^verbatim>\<open>
  def get_external_ip(inst: dict) -> Optional[str]:
      try:
          return inst["networkInterfaces"][0]["accessConfigs"][0]["natIP"]
      except Exception:
          return None
  \<close>
  \<open>nat_ip_path\<close> is the body of the \<^verbatim>\<open>try\<close>; \<open>get_external_ip\<close> adds the handler. Its
  result is a sum so that an exception the handler does not catch would be visible as
  \<open>Inl\<close>; Python's \<^verbatim>\<open>None\<close> is \<open>JNull\<close>.
\<close>

definition nat_ip_path :: "json \<Rightarrow> exn + json" where
  "nat_ip_path inst =
     and_then (py_getitem inst ''networkInterfaces'') (\<lambda>nis.
     and_then (py_getitem0 nis) (\<lambda>ni.
     and_then (py_getitem ni ''accessConfigs'') (\<lambda>acs.
     and_then (py_getitem0 acs) (\<lambda>ac.
     py_getitem ac ''natIP''))))"

definition get_external_ip :: "json \<Rightarrow> exn + json" where
  "get_external_ip inst =
     (case nat_ip_path inst of
        Inr v \<Rightarrow> Inr v
      | Inl e \<Rightarrow> if is_Exception e then Inr JNull else Inl e)"

section \<open>The provider, the trace of its calls, and outcomes\<close>

text \<open>
  The \<^verbatim>\<open>compute\<close> client is the scripts' only access to the provider. Each
  \<^verbatim>\<open>compute.<collection>().<method>(...).execute()\<close> is a \<open>request\<close>, carrying the
  keyword arguments of the call. The provider itself is not part of the repository: it is
  a parameter \<open>exec\<close>, any function from a request and the remote state to a response
  (a JSON document or a raised exception) and the next remote state.
\<close>

datatype request =
    ZoneOperationsGet string string json
  | GlobalOperationsGet string json
  | FirewallsGet string string
  | FirewallsInsert string json
  | InstancesGet string string string
  | InstancesInsert string string json
  | SnapshotsGet string string
  | DisksCreateSnapshot string string string json
  | ImagesGetFromFamily string string

type_synonym event = "request \<times> (exn + json)"

type_synonym 'w provider = "request \<Rightarrow> 'w \<Rightarrow> (exn + json) \<times> 'w"

text \<open>
  The state a script runs in: the remote state and the calls made so far, each with its
  response, oldest first. The trace is what the claims about "exactly one create call" or
  "exactly k polls" count. \<^verbatim>\<open>print\<close> and \<^verbatim>\<open>time.sleep\<close> are not recorded.
\<close>

record 'w st =
  world :: 'w
  trace :: "event list"

text \<open>
  A script function returns a value, raises, or is still inside a \<^verbatim>\<open>while True\<close> loop
  when the bound on the iterations of that loop (the \<open>fuel\<close> of the model) is used up.
\<close>

datatype 'a outcome = Returns 'a | Raises exn | Polling

type_synonym ('a, 'w) run = "'w st \<Rightarrow> 'a outcome \<times> 'w st"

definition call :: "'w provider \<Rightarrow> request \<Rightarrow> (json, 'w) run" where
  "call exec req s =
     (case exec req (world s) of
        (r, w') \<Rightarrow>
          ((case r of Inl e \<Rightarrow> Raises e | Inr v \<Rightarrow> Returns v),
           \<lparr>world = w', trace = trace s @ [(req, r)]\<rparr>))"

definition ret :: "'a \<Rightarrow> ('a, 'w) run" where
  "ret v s = (Returns v, s)"

definition raise :: "exn \<Rightarrow> ('a, 'w) run" where
  "raise e s = (Raises e, s)"

definition lift :: "exn + 'a \<Rightarrow> ('a, 'w) run" where
  "lift r s = (case r of Inl e \<Rightarrow> (Raises e, s) | Inr v \<Rightarrow> (Returns v, s))"

definition seq :: "('a, 'w) run \<Rightarrow> ('a \<Rightarrow> ('b, 'w) run) \<Rightarrow> ('b, 'w) run" where
  "seq m f s =
     (case m s of
        (Returns v, s') \<Rightarrow> f v s'
      | (Raises e, s') \<Rightarrow> (Raises e, s')
      | (Polling, s') \<Rightarrow> (Polling, s'))"

text \<open>\<^verbatim>\<open>try: m  except <handles> as e: h e\<close>.\<close>

definition catch :: "('a, 'w) run \<Rightarrow> (exn \<Rightarrow> bool) \<Rightarrow> (exn \<Rightarrow> ('a, 'w) run) \<Rightarrow> ('a, 'w) run" where
  "catch m handles h s =
     (case m s of
        (Raises e, s') \<Rightarrow> if handles e then h e s' else (Raises e, s')
      | (r, s') \<Rightarrow> (r, s'))"

text \<open>The handler of every lookup that tells absence from failure:
  \<^verbatim>\<open>
  except HttpError as e:
      if e.resp.status == 404:
          return <absent>
      raise
  \<close>\<close>

fun on_404 :: "'a \<Rightarrow> exn \<Rightarrow> ('a, 'w) run" where
  "on_404 absent (HttpError status content) =
     (if status = 404 then ret absent else raise (HttpError status content))"
| "on_404 absent e = raise e"

section \<open>The operation pollers\<close>

text \<open>
  The six pollers of the repository and the inline loop of \<^verbatim>\<open>vm1-launch-vm2.py\<close> share
  one body:
  \<^verbatim>\<open>
  while True:
      op = compute.zoneOperations().get(project=project, zone=zone, operation=op_name).execute()
      if op.get("status") == "DONE":
          if "error" in op:
              raise RuntimeError(op["error"])
          return op
      time.sleep(poll_sec)
  \<close>
  They differ in the request (zone or global operations), in the argument of the
  RuntimeError (\<^verbatim>\<open>op["error"]\<close> in part1 and part2, \<^verbatim>\<open>str(result["error"])\<close> in part3) and in
  the value returned (\<^verbatim>\<open>op\<close> in part2, nothing elsewhere). \<open>poll_loop\<close> is that body, with
  the request and the argument of the error as parameters, returning \<open>op\<close>.
  \<^verbatim>\<open>op.get\<close> needs a dictionary (AttributeError otherwise); on a dictionary,
  \<^verbatim>\<open>op.get("status") == "DONE"\<close> holds when the key is there with that string, and
  \<^verbatim>\<open>"error" in op\<close> when the key is there.
\<close>

fun poll_loop :: "nat \<Rightarrow> 'w provider \<Rightarrow> request \<Rightarrow> (json \<Rightarrow> json) \<Rightarrow> (json, 'w) run" where
  "poll_loop 0 exec req arg s = (Polling, s)"
| "poll_loop (Suc fuel) exec req arg s =
     seq (call exec req) (\<lambda>op.
       case op of
         JDict kvs \<Rightarrow>
           if map_of kvs ''status'' = Some (JStr ''DONE'') then
             (case map_of kvs ''error'' of
                Some err \<Rightarrow> raise (RuntimeError (arg err))
              | None \<Rightarrow> ret op)
           else (\<lambda>s'. poll_loop fuel exec req arg s')
       | _ \<Rightarrow> raise AttributeError) s"

definition discard :: "('a, 'w) run \<Rightarrow> (unit, 'w) run" where
  "discard m = seq m (\<lambda>_. ret ())"

text \<open>part1.py\<close>

definition p1_wait_for_zone_op :: "nat \<Rightarrow> 'w provider \<Rightarrow> string \<Rightarrow> string \<Rightarrow> json \<Rightarrow> (unit, 'w) run" where
  "p1_wait_for_zone_op fuel exec project zone op_name =
     discard (poll_loop fuel exec (ZoneOperationsGet project zone op_name) (\<lambda>err. err))"

definition p1_wait_for_global_op :: "nat \<Rightarrow> 'w provider \<Rightarrow> string \<Rightarrow> json \<Rightarrow> (unit, 'w) run" where
  "p1_wait_for_global_op fuel exec project op_name =
     discard (poll_loop fuel exec (GlobalOperationsGet project op_name) (\<lambda>err. err))"

text \<open>part2.py\<close>

definition p2_wait_for_zone_op :: "nat \<Rightarrow> 'w provider \<Rightarrow> string \<Rightarrow> string \<Rightarrow> json \<Rightarrow> (json, 'w) run" where
  "p2_wait_for_zone_op fuel exec project zone op_name =
     poll_loop fuel exec (ZoneOperationsGet project zone op_name) (\<lambda>err. err)"

definition p2_wait_for_global_op :: "nat \<Rightarrow> 'w provider \<Rightarrow> string \<Rightarrow> json \<Rightarrow> (json, 'w) run" where
  "p2_wait_for_global_op fuel exec project op_name =
     poll_loop fuel exec (GlobalOperationsGet project op_name) (\<lambda>err. err)"

text \<open>part3.py and vm1-launch-vm2.py (the same text in both). \<open>str_of\<close> is Python's
  \<^verbatim>\<open>str\<close> on a JSON value, a parameter.\<close>

definition p3_wait_for_zone_op ::
  "(json \<Rightarrow> string) \<Rightarrow> nat \<Rightarrow> 'w provider \<Rightarrow> string \<Rightarrow> string \<Rightarrow> json \<Rightarrow> (unit, 'w) run" where
  "p3_wait_for_zone_op str_of fuel exec project zone op_name =
     discard (poll_loop fuel exec (ZoneOperationsGet project zone op_name) (\<lambda>err. JStr (str_of err)))"

definition vm1_wait_for_zone_op ::
  "(json \<Rightarrow> string) \<Rightarrow> nat \<Rightarrow> 'w provider \<Rightarrow> string \<Rightarrow> string \<Rightarrow> json \<Rightarrow> (unit, 'w) run" where
  "vm1_wait_for_zone_op str_of fuel exec project zone op_name =
     discard (poll_loop fuel exec (ZoneOperationsGet project zone op_name) (\<lambda>err. JStr (str_of err)))"

text \<open>The loop written out in \<^verbatim>\<open>main\<close> of vm1-launch-vm2.py (lines 64 to 72), on the
  global operations, leaving by \<^verbatim>\<open>break\<close>.\<close>

definition vm1_inline_global_wait ::
  "(json \<Rightarrow> string) \<Rightarrow> nat \<Rightarrow> 'w provider \<Rightarrow> string \<Rightarrow> json \<Rightarrow> (unit, 'w) run" where
  "vm1_inline_global_wait str_of fuel exec project op_name =
     discard (poll_loop fuel exec (GlobalOperationsGet project op_name) (\<lambda>err. JStr (str_of err)))"

section \<open>part1.py\<close>

text \<open>
  \<^verbatim>\<open>
  def firewall_exists(compute, project: str, name: str) -> bool:
      try:
          compute.firewalls().get(project=project, firewall=name).execute()
          return True
      except HttpError as e:
          if e.resp.status == 404:
              return False
          raise
  \<close>
\<close>

definition firewall_exists :: "'w provider \<Rightarrow> string \<Rightarrow> string \<Rightarrow> (bool, 'w) run" where
  "firewall_exists exec project name =
     catch (seq (call exec (FirewallsGet project name)) (\<lambda>_. ret True))
       is_HttpError (on_404 False)"

definition firewall_body :: "string \<Rightarrow> string \<Rightarrow> json" where
  "firewall_body project name =
     JDict [
       (''name'', JStr name),
       (''network'', JStr (''projects/'' @ project @ ''/global/networks/default'')),
       (''direction'', JStr ''INGRESS''),
       (''priority'', JInt 1000),
       (''sourceRanges'', JList [JStr ''0.0.0.0/0'']),
       (''targetTags'', JList [JStr name]),
       (''allowed'', JList [JDict [(''IPProtocol'', JStr ''tcp''), (''ports'', JList [JStr ''5000''])]])]"

text \<open>
  \<^verbatim>\<open>
  def ensure_firewall_allow_5000(compute, project: str, name: str):
      if firewall_exists(compute, project, name):
          return
      body = {...}
      op = compute.firewalls().insert(project=project, body=body).execute()
      wait_for_global_op(compute, project, op["name"])
  \<close>
\<close>

definition ensure_firewall_allow_5000 :: "nat \<Rightarrow> 'w provider \<Rightarrow> string \<Rightarrow> string \<Rightarrow> (unit, 'w) run" where
  "ensure_firewall_allow_5000 fuel exec project name =
     seq (firewall_exists exec project name) (\<lambda>found.
       if found then ret ()
       else
         seq (call exec (FirewallsInsert project (firewall_body project name))) (\<lambda>op.
         seq (lift (py_getitem op ''name'')) (\<lambda>op_name.
         p1_wait_for_global_op fuel exec project op_name)))"

text \<open>\<^verbatim>\<open>instance_get\<close> of part1: \<^verbatim>\<open>None\<close> on a 404.\<close>

definition p1_instance_get :: "'w provider \<Rightarrow> string \<Rightarrow> string \<Rightarrow> string \<Rightarrow> (json, 'w) run" where
  "p1_instance_get exec project zone name =
     catch (call exec (InstancesGet project zone name)) is_HttpError (on_404 JNull)"




text \<open>
  The readiness wait of \<^verbatim>\<open>main\<close> (step 3), with the number of attempts as a parameter
  (the source writes 80):
  \<^verbatim>\<open>
  for _ in range(80):
      inst = instance_get(compute, project, args.zone, args.instance)
      ip = get_external_ip(inst) if inst else None
      if ip:
          print(f"[OK] external IP = {ip}")
          return
      time.sleep(2)
  raise RuntimeError("Timed out waiting for external IP")
  \<close>
  \<^verbatim>\<open>main\<close> prints the address and returns nothing; the model returns the address it
  prints.
\<close>

definition timed_out :: exn where
  "timed_out = RuntimeError (JStr ''Timed out waiting for external IP'')"

fun main_wait_external_ip ::
  "nat \<Rightarrow> 'w provider \<Rightarrow> string \<Rightarrow> string \<Rightarrow> string \<Rightarrow> (json, 'w) run" where
  "main_wait_external_ip 0 exec project zone instance s = raise timed_out s"
| "main_wait_external_ip (Suc n) exec project zone instance s =
     seq (p1_instance_get exec project zone instance) (\<lambda>inst.
     seq (if py_truthy inst then lift (get_external_ip inst) else ret JNull) (\<lambda>ip.
       if py_truthy ip then ret ip
       else (\<lambda>s'. main_wait_external_ip n exec project zone instance s'))) s"


section \<open>part2.py\<close>

definition SNAPSHOT_PREFIX :: string where
  "SNAPSHOT_PREFIX = ''base-snapshot''"


text \<open>\<^verbatim>\<open>instance_get\<close> of part2 has no handler: every failure of the lookup, a 404
  included, leaves the function as it came.\<close>

definition p2_instance_get :: "'w provider \<Rightarrow> string \<Rightarrow> string \<Rightarrow> string \<Rightarrow> (json, 'w) run" where
  "p2_instance_get exec project zone name = call exec (InstancesGet project zone name)"

definition snapshot_get :: "'w provider \<Rightarrow> string \<Rightarrow> string \<Rightarrow> (json, 'w) run" where
  "snapshot_get exec project name =
     catch (call exec (SnapshotsGet project name)) is_HttpError (on_404 JNull)"

text \<open>
  \<^verbatim>\<open>
  boot_disk = None
  for d in inst.get("disks", []):
      if d.get("boot"):
          boot_disk = d
          break
  \<close>
\<close>

fun find_boot_disk :: "json list \<Rightarrow> exn + json" where
  "find_boot_disk [] = Inr JNull"
| "find_boot_disk (d # ds) =
     (case py_get d ''boot'' JNull of
        Inl e \<Rightarrow> Inl e
      | Inr b \<Rightarrow> if py_truthy b then Inr d else find_boot_disk ds)"

text \<open>\<^verbatim>\<open>disk_source.split("/")[-1]\<close>: the text after the last slash; only a string
  has \<^verbatim>\<open>split\<close>.\<close>

fun split_last :: "json \<Rightarrow> exn + string" where
  "split_last (JStr s) = Inr (rev (takeWhile (\<lambda>c. c \<noteq> CHR ''/'') (rev s)))"
| "split_last _ = Inl AttributeError"

text \<open>
  Lines 53 to 64 of \<^verbatim>\<open>create_snapshot_from_instance_boot_disk\<close>, which make no
  call: from the description of the base instance to the name of its boot disk.
  \<^verbatim>\<open>
  boot_disk = ... (the loop above, over inst.get("disks", []))
  if not boot_disk:
      raise RuntimeError("Could not find boot disk on instance")
  disk_source = boot_disk["source"]
  disk_name = disk_source.split("/")[-1]
  \<close>
\<close>

definition no_boot_disk :: exn where
  "no_boot_disk = RuntimeError (JStr ''Could not find boot disk on instance'')"

definition boot_disk_name :: "json \<Rightarrow> exn + string" where
  "boot_disk_name inst =
     and_then (py_get inst ''disks'' (JList [])) (\<lambda>disks.
     and_then (py_iter disks) (\<lambda>ds.
     and_then (find_boot_disk ds) (\<lambda>boot_disk.
       if \<not> py_truthy boot_disk then Inl no_boot_disk
       else
         and_then (py_getitem boot_disk ''source'') (\<lambda>disk_source.
         split_last disk_source))))"

definition snapshot_name_of :: "string \<Rightarrow> string" where
  "snapshot_name_of base_instance = SNAPSHOT_PREFIX @ ''-'' @ base_instance"

definition snapshot_body :: "string \<Rightarrow> json" where
  "snapshot_body snapshot_name = JDict [(''name'', JStr snapshot_name)]"

text \<open>
  \<^verbatim>\<open>
  def create_snapshot_from_instance_boot_disk(compute, project, zone, base_instance) -> str:
      inst = instance_get(compute, project, zone, base_instance)
      ... (lines 53 to 64)
      snapshot_name = f"{SNAPSHOT_PREFIX}-{base_instance}"
      if snapshot_get(compute, project, snapshot_name):
          return snapshot_name
      body = {"name": snapshot_name}
      op = compute.disks().createSnapshot(project=project, zone=zone, disk=disk_name, body=body).execute()
      wait_for_zone_op(compute, project, zone, op["name"])
      return snapshot_name
  \<close>
\<close>

definition create_snapshot_from_instance_boot_disk ::
  "nat \<Rightarrow> 'w provider \<Rightarrow> string \<Rightarrow> string \<Rightarrow> string \<Rightarrow> (string, 'w) run" where
  "create_snapshot_from_instance_boot_disk fuel exec project zone base_instance =
     seq (p2_instance_get exec project zone base_instance) (\<lambda>inst.
     seq (lift (boot_disk_name inst)) (\<lambda>disk_name.
     seq (snapshot_get exec project (snapshot_name_of base_instance)) (\<lambda>snap.
       if py_truthy snap then ret (snapshot_name_of base_instance)
       else
         seq (call exec (DisksCreateSnapshot project zone disk_name
                (snapshot_body (snapshot_name_of base_instance)))) (\<lambda>op.
         seq (lift (py_getitem op ''name'')) (\<lambda>op_name.
         seq (p2_wait_for_zone_op fuel exec project zone op_name) (\<lambda>_.
         ret (snapshot_name_of base_instance)))))))"

definition instance_exists :: "'w provider \<Rightarrow> string \<Rightarrow> string \<Rightarrow> string \<Rightarrow> (bool, 'w) run" where
  "instance_exists exec project zone name =
     catch (seq (call exec (InstancesGet project zone name)) (\<lambda>_. ret True))
       is_HttpError (on_404 False)"









section \<open>part3.py and vm1-launch-vm2.py\<close>










definition vm1_firewall_body :: json where
  "vm1_firewall_body =
     JDict [
       (''name'', JStr ''allow-5001''),
       (''direction'', JStr ''INGRESS''),
       (''allowed'', JList [JDict [(''IPProtocol'', JStr ''tcp''), (''ports'', JList [JStr ''5001''])]]),
       (''sourceRanges'', JList [JStr ''0.0.0.0/0'']),
       (''targetTags'', JList [JStr ''allow-5001''])]"

text \<open>
  The firewall step of \<^verbatim>\<open>main\<close> of vm1-launch-vm2.py:
  \<^verbatim>\<open>
  # firewall rule for 5001 (idempotent-ish)
  fw_name = "allow-5001"
  try:
      compute.firewalls().get(project=project, firewall=fw_name).execute()
  except Exception:
      firewall_body = {...}
      op = compute.firewalls().insert(project=project, body=firewall_body).execute()
      while True: ...   (the inline loop)
  \<close>
\<close>

definition vm1_ensure_firewall :: "(json \<Rightarrow> string) \<Rightarrow> nat \<Rightarrow> 'w provider \<Rightarrow> string \<Rightarrow> (unit, 'w) run" where
  "vm1_ensure_firewall str_of fuel exec project =
     catch (discard (call exec (FirewallsGet project ''allow-5001'')))
       is_Exception (\<lambda>e.
         seq (call exec (FirewallsInsert project vm1_firewall_body)) (\<lambda>op.
         seq (lift (py_getitem op ''name'')) (\<lambda>op_name.
         vm1_inline_global_wait str_of fuel exec project op_name)))"



section \<open>A scripted provider\<close>

text \<open>
  A test double for the examples: the remote state is the list of the responses still
  to come, handed out in order whatever the request is.
\<close>

definition scripted :: "(exn + json) list provider" where
  "scripted req w =
     (case w of
        [] \<Rightarrow> (Inl (OtherError ''script exhausted''), [])
      | r # rs \<Rightarrow> (r, rs))"

definition start :: "'w \<Rightarrow> 'w st" where
  "start w = \<lparr>world = w, trace = []\<rparr>"

text \<open>The requests of a trace, and the events a run added to a trace.\<close>

definition requests :: "event list \<Rightarrow> request list" where
  "requests evs = map fst evs"

definition added :: "'w st \<Rightarrow> 'w st \<Rightarrow> event list" where
  "added s s' = drop (length (trace s)) (trace s')"

section \<open>The vocabulary of the properties\<close>

text \<open>
  The address of an instance description as the specification words it: the NAT
  address of the first access config of the first network interface, when all the nested
  fields are there.
\<close>

fun first_nat_ip :: "json \<Rightarrow> json option" where
  "first_nat_ip (JDict kvs) =
     (case map_of kvs ''networkInterfaces'' of
        Some (JList (JDict ni # _)) \<Rightarrow>
          (case map_of ni ''accessConfigs'' of
             Some (JList (JDict ac # _)) \<Rightarrow> map_of ac ''natIP''
           | _ \<Rightarrow> None)
      | _ \<Rightarrow> None)"
| "first_nat_ip _ = None"

text \<open>A status document: terminal, not yet terminal, and its error payload.\<close>

fun op_done :: "json \<Rightarrow> bool" where
  "op_done (JDict kvs) = (map_of kvs ''status'' = Some (JStr ''DONE''))"
| "op_done _ = False"

fun op_pending :: "json \<Rightarrow> bool" where
  "op_pending (JDict kvs) = (map_of kvs ''status'' \<noteq> Some (JStr ''DONE''))"
| "op_pending _ = False"

fun op_error :: "json \<Rightarrow> json option" where
  "op_error (JDict kvs) = map_of kvs ''error''"
| "op_error _ = None"

text \<open>
  The state after the same request has been made \<open>i\<close> times in a row, and the
  provider's response to the next one (the response number \<open>i\<close>, counting from 0).
\<close>

fun after_calls :: "'w provider \<Rightarrow> request \<Rightarrow> nat \<Rightarrow> 'w st \<Rightarrow> 'w st" where
  "after_calls exec req 0 s = s"
| "after_calls exec req (Suc i) s = after_calls exec req i (snd (call exec req s))"

definition nth_response :: "'w provider \<Rightarrow> request \<Rightarrow> nat \<Rightarrow> 'w st \<Rightarrow> exn + json" where
  "nth_response exec req i s = fst (exec req (world (after_calls exec req i s)))"





fun is_snapshot_call :: "request \<Rightarrow> bool" where
  "is_snapshot_call (SnapshotsGet _ _) = True"
| "is_snapshot_call (DisksCreateSnapshot _ _ _ _) = True"
| "is_snapshot_call _ = False"

text \<open>
  A lookup is answered when the provider returns a description or reports 404; the
  address an answer exposes is \<^verbatim>\<open>None\<close> unless the description is there with all
  its nested fields.
\<close>

fun answered :: "exn + json \<Rightarrow> bool" where
  "answered (Inr inst) = True"
| "answered (Inl (HttpError status content)) = (status = 404)"
| "answered (Inl _) = False"

fun address_in :: "exn + json \<Rightarrow> json" where
  "address_in (Inr inst) = (case first_nat_ip inst of Some v \<Rightarrow> v | None \<Rightarrow> JNull)"
| "address_in (Inl e) = JNull"








text \<open>
  The disks of an instance description, a disk marked as the boot disk
  (\<^verbatim>\<open>d.get("boot")\<close> holds), and a description whose disks, if any, are a list of
  dictionaries.
\<close>

fun disks_of :: "json \<Rightarrow> json list" where
  "disks_of (JDict kvs) = (case map_of kvs ''disks'' of Some (JList ds) \<Rightarrow> ds | _ \<Rightarrow> [])"
| "disks_of _ = []"

fun marked_boot :: "json \<Rightarrow> bool" where
  "marked_boot (JDict d) = (case map_of d ''boot'' of Some b \<Rightarrow> py_truthy b | None \<Rightarrow> False)"
| "marked_boot _ = False"

definition has_boot_disk :: "json \<Rightarrow> bool" where
  "has_boot_disk inst = list_ex marked_boot (disks_of inst)"

fun is_dict :: "json \<Rightarrow> bool" where
  "is_dict (JDict _) = True"
| "is_dict _ = False"

fun plain_disks :: "json \<Rightarrow> bool" where
  "plain_disks (JDict kvs) =
     (case map_of kvs ''disks'' of
        None \<Rightarrow> True
      | Some (JList ds) \<Rightarrow> list_all is_dict ds
      | Some _ \<Rightarrow> False)"
| "plain_disks _ = False"

text \<open>
  A device of the proofs: a run only appends to the trace, and every event it appends
  satisfies \<open>P\<close>.
\<close>

definition appends :: "(event \<Rightarrow> bool) \<Rightarrow> ('a, 'w) run \<Rightarrow> bool" where
  "appends P m = (\<forall>s. \<exists>evs. trace (snd (m s)) = trace s @ evs \<and> list_all P evs)"

section \<open>Example data\<close>

text \<open>An operation that answers PENDING, then RUNNING, then DONE.\<close>

definition three_polls :: "(exn + json) list" where
  "three_polls = [Inr (JDict [(''status'', JStr ''PENDING'')]),
                  Inr (JDict [(''status'', JStr ''RUNNING'')]),
                  Inr (JDict [(''status'', JStr ''DONE'')])]"

text \<open>An error payload of the shape the provider sends, and an operation that fails
  with it on its second poll.\<close>

definition quota_error :: json where
  "quota_error = JDict [(''errors'', JList [JDict [
     (''code'', JStr ''QUOTA_EXCEEDED''), (''message'', JStr ''Quota exceeded'')]])]"

definition failing_polls :: "(exn + json) list" where
  "failing_polls = [Inr (JDict [(''status'', JStr ''RUNNING'')]),
                    Inr (JDict [(''status'', JStr ''DONE''), (''error'', quota_error)])]"

text \<open>A description of a running instance with an external address.\<close>

definition instance_with_ip :: json where
  "instance_with_ip = JDict [
     (''name'', JStr ''flask-vm''),
     (''networkInterfaces'', JList [JDict [
        (''accessConfigs'', JList [JDict [(''natIP'', JStr ''34.1.2.3'')]])]])]"

text \<open>The same instance before the address is assigned.\<close>

definition instance_without_ip :: json where
  "instance_without_ip = JDict [
     (''name'', JStr ''flask-vm''),
     (''networkInterfaces'', JList [JDict [
        (''accessConfigs'', JList [JDict [(''name'', JStr ''External NAT'')]])]])]"

text \<open>Lookups of an instance: not found, then without an address, then with one.\<close>

definition address_on_third :: "(exn + json) list" where
  "address_on_third = [Inl (HttpError 404 ''not found''), Inr instance_without_ip, Inr instance_with_ip]"

text \<open>Five lookups that never expose an address.\<close>

definition never_an_address :: "(exn + json) list" where
  "never_an_address = [Inl (HttpError 404 ''not found''), Inr (JDict []), Inr instance_without_ip,
     Inr instance_without_ip, Inr instance_without_ip]"

text \<open>An operation that ends with the text of the readiness timeout as its error.\<close>

definition timeout_like_failure :: "(exn + json) list" where
  "timeout_like_failure = [Inr (JDict [(''status'', JStr ''DONE''),
     (''error'', JStr ''Timed out waiting for external IP'')])]"

text \<open>A base instance whose only disk is a data disk, and one with a boot disk.\<close>

definition instance_without_boot_disk :: json where
  "instance_without_boot_disk = JDict [
     (''name'', JStr ''flask-vm''),
     (''disks'', JList [JDict [
        (''boot'', JBool False),
        (''source'', JStr ''projects/p/zones/us-west1-b/disks/data-1'')]])]"




text \<open>A lookup that fails for want of permission, then a creation that succeeds.\<close>

definition forbidden_then_created :: "(exn + json) list" where
  "forbidden_then_created = [
     Inl (HttpError 403 ''forbidden''),
     Inr (JDict [(''name'', JStr ''operation-1'')]),
     Inr (JDict [(''status'', JStr ''DONE'')])]"





section \<open>Calls and pollers: basic facts\<close>

lemma fst_call:
  "fst (call exec req s) = (case fst (exec req (world s)) of Inl e \<Rightarrow> Raises e | Inr v \<Rightarrow> Returns v)"
  by (simp add: call_def split: prod.splits)

lemma trace_call:
  "trace (snd (call exec req s)) = trace s @ [(req, fst (exec req (world s)))]"
  by (simp add: call_def split: prod.splits)

lemma world_call:
  "world (snd (call exec req s)) = snd (exec req (world s))"
  by (simp add: call_def split: prod.splits)

lemma nth_response_Suc:
  "nth_response exec req (Suc i) s = nth_response exec req i (snd (call exec req s))"
  by (simp add: nth_response_def)

lemma after_calls_Suc:
  "after_calls exec req (Suc i) s = snd (call exec req (after_calls exec req i s))"
  by (induction i arbitrary: s) simp_all

lemma trace_after_calls:
  "trace (after_calls exec req n s) = trace s @ map (\<lambda>i. (req, nth_response exec req i s)) [0..<n]"
proof (induction n)
  case 0
  show ?case by simp
next
  case (Suc n)
  have "trace (after_calls exec req (Suc n) s)
      = trace (after_calls exec req n s) @ [(req, nth_response exec req n s)]"
    unfolding after_calls_Suc by (simp add: trace_call nth_response_def)
  with Suc show ?case by simp
qed

lemma requests_after_calls:
  "requests (added s (after_calls exec req n s)) = replicate n req"
  by (simp add: added_def requests_def trace_after_calls comp_def map_replicate_const)

lemma poll_loop_pending:
  assumes "nth_response exec req 0 s = Inr op" and "op_pending op"
  shows "poll_loop (Suc fuel) exec req arg s = poll_loop fuel exec req arg (snd (call exec req s))"
  using assms
  by (cases op; cases "exec req (world s)") (simp_all add: nth_response_def call_def seq_def)

lemma poll_loop_done:
  assumes "nth_response exec req 0 s = Inr op" and "op_done op"
  shows "poll_loop (Suc fuel) exec req arg s =
    ((case op_error op of Some err \<Rightarrow> Raises (RuntimeError (arg err)) | None \<Rightarrow> Returns op),
     snd (call exec req s))"
  using assms
  by (cases op; cases "exec req (world s)")
    (simp_all add: nth_response_def call_def seq_def raise_def ret_def split: option.splits)

lemma poll_loop_reaches:
  assumes "\<forall>i<n. \<exists>p. nth_response exec req i s = Inr p \<and> op_pending p"
    and "nth_response exec req n s = Inr op" and "op_done op" and "n < fuel"
  shows "poll_loop fuel exec req arg s =
    ((case op_error op of Some err \<Rightarrow> Raises (RuntimeError (arg err)) | None \<Rightarrow> Returns op),
     after_calls exec req (Suc n) s)"
  using assms
proof (induction n arbitrary: s fuel)
  case 0
  then obtain f where "fuel = Suc f" by (cases fuel) auto
  with 0 show ?case by (simp add: poll_loop_done del: poll_loop.simps)
next
  case (Suc n)
  then obtain f where f: "fuel = Suc f" by (cases fuel) auto
  from Suc.prems(1) obtain p where p: "nth_response exec req 0 s = Inr p" "op_pending p"
    by blast
  let ?s = "snd (call exec req s)"
  have "\<forall>i<n. \<exists>p. nth_response exec req i ?s = Inr p \<and> op_pending p"
    using Suc.prems(1) by (auto simp: nth_response_Suc[symmetric])
  moreover have "nth_response exec req n ?s = Inr op"
    using Suc.prems(2) by (simp add: nth_response_Suc)
  moreover have "n < f" using Suc.prems(4) f by simp
  ultimately have "poll_loop f exec req arg ?s =
    ((case op_error op of Some err \<Rightarrow> Raises (RuntimeError (arg err)) | None \<Rightarrow> Returns op),
     after_calls exec req (Suc n) ?s)"
    using Suc.IH[of ?s f] Suc.prems(3) by blast
  then show ?case using p f by (simp add: poll_loop_pending del: poll_loop.simps)
qed

lemma discard_apply:
  "discard m s =
     (case m s of (Returns v, s') \<Rightarrow> (Returns (), s') | (Raises e, s') \<Rightarrow> (Raises e, s')
      | (Polling, s') \<Rightarrow> (Polling, s'))"
  by (simp add: discard_def seq_def ret_def split: prod.splits outcome.splits)

lemma get_external_ip_first_nat_ip:
  "get_external_ip inst = Inr (case first_nat_ip inst of Some v \<Rightarrow> v | None \<Rightarrow> JNull)"
proof (cases inst)
  case (JDict kvs)
  show ?thesis
  proof (cases "map_of kvs ''networkInterfaces''")
    case None
    with JDict show ?thesis
      by (simp add: get_external_ip_def nat_ip_path_def and_then_def)
  next
    case (Some nis)
    with JDict show ?thesis
      apply (cases nis)
      apply (simp_all add: get_external_ip_def nat_ip_path_def and_then_def)
      subgoal for s by (cases s) simp_all
      subgoal for xs
        apply (cases xs)
         apply simp
        subgoal for ni rest
          apply (cases ni)
               apply simp_all
          subgoal for nkv
            apply (cases "map_of nkv ''accessConfigs''")
             apply simp
            subgoal for acs
              apply (cases acs)
                   apply simp_all
              subgoal for s by (cases s) simp_all
              subgoal for ys
                apply (cases ys)
                 apply simp
                subgoal for ac r2
                  apply (cases ac)
                       apply simp_all
                  subgoal for akv by (cases "map_of akv ''natIP''") simp_all
                  done
                done
              done
            done
          done
        done
      done
  qed
qed (simp_all add: get_external_ip_def nat_ip_path_def and_then_def)

lemma seq_call:
  "seq (call exec req) f s =
     (case nth_response exec req 0 s of
        Inl e \<Rightarrow> (Raises e, snd (call exec req s))
      | Inr v \<Rightarrow> f v (snd (call exec req s)))"
  by (simp add: nth_response_def call_def seq_def split: prod.splits sum.splits)

lemma seq_lift:
  "seq (lift r) f s = (case r of Inl e \<Rightarrow> (Raises e, s) | Inr v \<Rightarrow> f v s)"
  by (simp add: seq_def lift_def split: sum.splits)

lemma seq_ret: "seq (ret v) f s = f v s"
  by (simp add: seq_def ret_def)

lemma seq_raise: "seq (raise e) f s = (Raises e, s)"
  by (simp add: seq_def raise_def)



lemmas run_defs = nth_response_def call_def scripted_def start_def seq_def ret_def raise_def
  lift_def catch_def discard_apply added_def requests_def

section \<open>The address extraction is total (C10)\<close>

text \<open>
  Claim C10. For every instance description, of any shape, \<open>get_external_ip\<close> returns
  normally (its result is never \<open>Inl\<close>): the NAT address of the first access config of
  the first network interface when all the nested fields are there, \<^verbatim>\<open>None\<close> otherwise.
\<close>

theorem get_external_ip_total:
  "get_external_ip inst = Inr (case first_nat_ip inst of Some v \<Rightarrow> v | None \<Rightarrow> JNull)"
  by (rule get_external_ip_first_nat_ip)

theorem get_external_ip_total_witness:
  "get_external_ip instance_with_ip = Inr (JStr ''34.1.2.3'')
   \<and> get_external_ip instance_without_ip = Inr JNull
   \<and> get_external_ip JNull = Inr JNull"
  using get_external_ip_total[of instance_with_ip] get_external_ip_total[of instance_without_ip]
    get_external_ip_total[of JNull]
  by (simp add: instance_with_ip_def instance_without_ip_def)

section \<open>Polling terminates at the first DONE (C6)\<close>

text \<open>
  Claim C6. When the provider answers the first \<open>n\<close> polls of an operation with a status
  that is not DONE and the next one (the poll number \<open>k = n + 1\<close>) with DONE and no error,
  every poller returns success, for every bound on its iterations above \<open>n\<close>, in the
  state reached after exactly \<open>k\<close> status fetches: the trace has grown by \<open>k\<close> polls of
  that operation and nothing else.
\<close>

theorem await_completion_terminates:
  assumes "\<forall>i<n. \<exists>p. nth_response exec req i s = Inr p \<and> op_pending p"
    and "nth_response exec req n s = Inr op" and "op_done op" and "op_error op = None"
    and "n < fuel"
    and "s' = after_calls exec req (Suc n) s"
  shows "(req = ZoneOperationsGet project zone op_name \<longrightarrow>
            p1_wait_for_zone_op fuel exec project zone op_name s = (Returns (), s') \<and>
            p2_wait_for_zone_op fuel exec project zone op_name s = (Returns op, s') \<and>
            p3_wait_for_zone_op str_of fuel exec project zone op_name s = (Returns (), s') \<and>
            vm1_wait_for_zone_op str_of fuel exec project zone op_name s = (Returns (), s')) \<and>
         (req = GlobalOperationsGet project op_name \<longrightarrow>
            p1_wait_for_global_op fuel exec project op_name s = (Returns (), s') \<and>
            p2_wait_for_global_op fuel exec project op_name s = (Returns op, s') \<and>
            vm1_inline_global_wait str_of fuel exec project op_name s = (Returns (), s')) \<and>
         requests (added s s') = replicate (Suc n) req"
proof -
  have loop: "poll_loop fuel exec req arg s = (Returns op, s')" for arg
    using poll_loop_reaches[OF assms(1,2,3,5), of arg] assms(4,6) by simp
  have "requests (added s s') = replicate (Suc n) req"
    unfolding assms(6) by (rule requests_after_calls)
  then show ?thesis
    using loop
    by (auto simp: p1_wait_for_zone_op_def p2_wait_for_zone_op_def p3_wait_for_zone_op_def
        vm1_wait_for_zone_op_def p1_wait_for_global_op_def p2_wait_for_global_op_def
        vm1_inline_global_wait_def discard_apply)
qed

theorem await_completion_terminates_witness:
  "p1_wait_for_zone_op 3 scripted ''p'' ''z'' (JStr ''op'') (start three_polls)
     = (Returns (), after_calls scripted (ZoneOperationsGet ''p'' ''z'' (JStr ''op'')) 3 (start three_polls))
   \<and> requests (trace (after_calls scripted (ZoneOperationsGet ''p'' ''z'' (JStr ''op'')) 3 (start three_polls)))
     = replicate 3 (ZoneOperationsGet ''p'' ''z'' (JStr ''op''))"
  using await_completion_terminates[of 2 scripted "ZoneOperationsGet ''p'' ''z'' (JStr ''op'')"
      "start three_polls" "JDict [(''status'', JStr ''DONE'')]" 3
      "after_calls scripted (ZoneOperationsGet ''p'' ''z'' (JStr ''op'')) 3 (start three_polls)"
      "''p''" "''z''" "JStr ''op''" "\<lambda>_. []"]
  by (simp add: All_less_Suc nth_response_def three_polls_def scripted_def start_def call_def
      added_def requests_def eval_nat_numeral)

section \<open>A failed operation raises with its payload (C3)\<close>

text \<open>
  Claim C3, against the claim as stated: the pollers of part3.py and vm1-launch-vm2.py
  raise \<^verbatim>\<open>RuntimeError(str(result["error"]))\<close>. On an operation that ends DONE with the
  error payload \<open>quota_error\<close>, the exception they raise carries the text of the payload,
  whatever \<^verbatim>\<open>str\<close> makes of it, and not the payload.
\<close>

theorem p3_error_payload_is_text:
  "\<forall>str_of.
     fst (p3_wait_for_zone_op str_of 2 scripted ''p'' ''z'' (JStr ''op'') (start failing_polls))
       = Raises (RuntimeError (JStr (str_of quota_error)))
   \<and> fst (p3_wait_for_zone_op str_of 2 scripted ''p'' ''z'' (JStr ''op'') (start failing_polls))
       \<noteq> Raises (RuntimeError quota_error)
   \<and> fst (vm1_wait_for_zone_op str_of 2 scripted ''p'' ''z'' (JStr ''op'') (start failing_polls))
       \<noteq> Raises (RuntimeError quota_error)"
  by (simp add: p3_wait_for_zone_op_def vm1_wait_for_zone_op_def discard_apply failing_polls_def
      scripted_def start_def call_def seq_def raise_def ret_def quota_error_def eval_nat_numeral)

text \<open>
  Claim C3, as amended. When an operation reaches DONE (after \<open>n\<close> polls that are not
  DONE) with an error payload, the pollers of part1.py and part2.py raise a RuntimeError
  carrying that exact payload, and the pollers of part3.py and vm1-launch-vm2.py (the
  inline loop included) raise a RuntimeError carrying \<^verbatim>\<open>str\<close> of the payload; when it
  reaches DONE with no error payload, every poller returns success.
\<close>

theorem operation_error_surfaces:
  assumes "\<forall>i<n. \<exists>p. nth_response exec req i s = Inr p \<and> op_pending p"
    and "nth_response exec req n s = Inr op" and "op_done op"
    and "n < fuel"
    and "s' = after_calls exec req (Suc n) s"
  shows "(req = ZoneOperationsGet project zone op_name \<longrightarrow>
            p1_wait_for_zone_op fuel exec project zone op_name s =
              ((case op_error op of Some err \<Rightarrow> Raises (RuntimeError err) | None \<Rightarrow> Returns ()), s') \<and>
            p2_wait_for_zone_op fuel exec project zone op_name s =
              ((case op_error op of Some err \<Rightarrow> Raises (RuntimeError err) | None \<Rightarrow> Returns op), s') \<and>
            p3_wait_for_zone_op str_of fuel exec project zone op_name s =
              ((case op_error op of Some err \<Rightarrow> Raises (RuntimeError (JStr (str_of err)))
                | None \<Rightarrow> Returns ()), s') \<and>
            vm1_wait_for_zone_op str_of fuel exec project zone op_name s =
              ((case op_error op of Some err \<Rightarrow> Raises (RuntimeError (JStr (str_of err)))
                | None \<Rightarrow> Returns ()), s')) \<and>
         (req = GlobalOperationsGet project op_name \<longrightarrow>
            p1_wait_for_global_op fuel exec project op_name s =
              ((case op_error op of Some err \<Rightarrow> Raises (RuntimeError err) | None \<Rightarrow> Returns ()), s') \<and>
            p2_wait_for_global_op fuel exec project op_name s =
              ((case op_error op of Some err \<Rightarrow> Raises (RuntimeError err) | None \<Rightarrow> Returns op), s') \<and>
            vm1_inline_global_wait str_of fuel exec project op_name s =
              ((case op_error op of Some err \<Rightarrow> Raises (RuntimeError (JStr (str_of err)))
                | None \<Rightarrow> Returns ()), s'))"
proof -
  have loop: "poll_loop fuel exec req arg s =
      ((case op_error op of Some err \<Rightarrow> Raises (RuntimeError (arg err)) | None \<Rightarrow> Returns op), s')" for arg
    using poll_loop_reaches[OF assms(1,2,3,4), of arg] assms(5) by simp
  show ?thesis
    using loop
    by (auto simp: p1_wait_for_zone_op_def p2_wait_for_zone_op_def p3_wait_for_zone_op_def
        vm1_wait_for_zone_op_def p1_wait_for_global_op_def p2_wait_for_global_op_def
        vm1_inline_global_wait_def discard_apply split: option.splits)
qed

theorem operation_error_surfaces_witness:
  "fst (p1_wait_for_zone_op 2 scripted ''p'' ''z'' (JStr ''op'') (start failing_polls))
     = Raises (RuntimeError quota_error)
   \<and> fst (p2_wait_for_zone_op 2 scripted ''p'' ''z'' (JStr ''op'') (start failing_polls))
     = Raises (RuntimeError quota_error)
   \<and> fst (p3_wait_for_zone_op (\<lambda>_. ''payload as text'') 2 scripted ''p'' ''z'' (JStr ''op'') (start failing_polls))
     = Raises (RuntimeError (JStr ''payload as text''))"
  using operation_error_surfaces[of 1 scripted "ZoneOperationsGet ''p'' ''z'' (JStr ''op'')"
      "start failing_polls" "JDict [(''status'', JStr ''DONE''), (''error'', quota_error)]" 2
      "after_calls scripted (ZoneOperationsGet ''p'' ''z'' (JStr ''op'')) 2 (start failing_polls)"
      "''p''" "''z''" "JStr ''op''" "\<lambda>_. ''payload as text''"]
  by (simp add: All_less_Suc nth_response_def failing_polls_def scripted_def start_def call_def
      eval_nat_numeral)

section \<open>The readiness wait, one lookup at a time\<close>

lemma falsy_no_nat_ip: "\<not> py_truthy inst \<Longrightarrow> first_nat_ip inst = None"
  by (cases inst) simp_all

lemma wait_step_no_address:
  assumes "answered (nth_response exec (InstancesGet project zone instance) 0 s)"
    and "\<not> py_truthy (address_in (nth_response exec (InstancesGet project zone instance) 0 s))"
  shows "main_wait_external_ip (Suc n) exec project zone instance s =
         main_wait_external_ip n exec project zone instance
           (snd (call exec (InstancesGet project zone instance) s))"
proof (cases "exec (InstancesGet project zone instance) (world s)")
  case (Pair r w)
  show ?thesis
  proof (cases r)
    case (Inr inst)
    with Pair assms show ?thesis
      by (simp add: nth_response_def p1_instance_get_def catch_def call_def seq_def lift_def
          ret_def get_external_ip_first_nat_ip falsy_no_nat_ip split: option.splits)
  next
    case (Inl e)
    with Pair assms show ?thesis
      by (cases e)
        (simp_all add: nth_response_def p1_instance_get_def catch_def call_def seq_def lift_def
          ret_def)
  qed
qed

lemma wait_step_address:
  assumes "answered (nth_response exec (InstancesGet project zone instance) 0 s)"
    and "py_truthy (address_in (nth_response exec (InstancesGet project zone instance) 0 s))"
  shows "main_wait_external_ip (Suc n) exec project zone instance s =
         (Returns (address_in (nth_response exec (InstancesGet project zone instance) 0 s)),
          snd (call exec (InstancesGet project zone instance) s))"
proof (cases "exec (InstancesGet project zone instance) (world s)")
  case (Pair r w)
  show ?thesis
  proof (cases r)
    case (Inr inst)
    with Pair assms show ?thesis
      by (cases "py_truthy inst")
        (simp_all add: nth_response_def p1_instance_get_def catch_def call_def seq_def lift_def
          ret_def get_external_ip_first_nat_ip falsy_no_nat_ip split: option.splits)
  next
    case (Inl e)
    with Pair assms show ?thesis
      by (cases e) (simp_all add: nth_response_def)
  qed
qed

lemma wait_times_out:
  assumes "\<forall>i<n. answered (nth_response exec (InstancesGet project zone instance) i s) \<and>
             \<not> py_truthy (address_in (nth_response exec (InstancesGet project zone instance) i s))"
  shows "main_wait_external_ip n exec project zone instance s =
         (Raises timed_out, after_calls exec (InstancesGet project zone instance) n s)"
  using assms
proof (induction n arbitrary: s)
  case 0
  show ?case by (simp add: raise_def)
next
  case (Suc n)
  let ?req = "InstancesGet project zone instance"
  let ?s = "snd (call exec ?req s)"
  have first: "answered (nth_response exec ?req 0 s)"
    "\<not> py_truthy (address_in (nth_response exec ?req 0 s))"
    using Suc.prems by auto
  have "\<forall>i<n. answered (nth_response exec ?req i ?s) \<and>
          \<not> py_truthy (address_in (nth_response exec ?req i ?s))"
    using Suc.prems by (auto simp: nth_response_Suc[symmetric])
  then have "main_wait_external_ip n exec project zone instance ?s =
      (Raises timed_out, after_calls exec ?req n ?s)"
    by (rule Suc.IH)
  then show ?case
    using first by (simp add: wait_step_no_address del: main_wait_external_ip.simps)
qed

lemma wait_finds_address:
  assumes "\<forall>i<k. answered (nth_response exec (InstancesGet project zone instance) i s) \<and>
             \<not> py_truthy (address_in (nth_response exec (InstancesGet project zone instance) i s))"
    and "answered (nth_response exec (InstancesGet project zone instance) k s)"
    and "py_truthy (address_in (nth_response exec (InstancesGet project zone instance) k s))"
    and "k < n"
  shows "main_wait_external_ip n exec project zone instance s =
         (Returns (address_in (nth_response exec (InstancesGet project zone instance) k s)),
          after_calls exec (InstancesGet project zone instance) (Suc k) s)"
  using assms
proof (induction k arbitrary: s n)
  case 0
  then obtain m where "n = Suc m" by (cases n) auto
  with 0 show ?case by (simp add: wait_step_address del: main_wait_external_ip.simps)
next
  case (Suc k)
  let ?req = "InstancesGet project zone instance"
  let ?s = "snd (call exec ?req s)"
  from Suc.prems(4) obtain m where m: "n = Suc m" "k < m" by (cases n) auto
  have first: "answered (nth_response exec ?req 0 s)"
    "\<not> py_truthy (address_in (nth_response exec ?req 0 s))"
    using Suc.prems(1) by auto
  have "\<forall>i<k. answered (nth_response exec ?req i ?s) \<and>
          \<not> py_truthy (address_in (nth_response exec ?req i ?s))"
    using Suc.prems(1) by (auto simp: nth_response_Suc[symmetric])
  moreover have "answered (nth_response exec ?req k ?s)"
    "py_truthy (address_in (nth_response exec ?req k ?s))"
    using Suc.prems(2,3) by (simp_all add: nth_response_Suc)
  ultimately have "main_wait_external_ip m exec project zone instance ?s =
      (Returns (address_in (nth_response exec ?req k ?s)), after_calls exec ?req (Suc k) ?s)"
    using m(2) by (rule Suc.IH)
  then show ?case
    using first m(1)
    by (simp add: wait_step_no_address nth_response_Suc del: main_wait_external_ip.simps)
qed

section \<open>The readiness wait is bounded (C5)\<close>

text \<open>
  Claim C5, against the claim as stated: the timeout of the readiness wait is not an error
  of its own kind. The script raises \<^verbatim>\<open>RuntimeError("Timed out waiting for external IP")\<close>,
  the class the pollers raise for a failed operation, and a poller whose operation ends
  with that text as its error payload raises the very same exception.
\<close>

theorem timeout_is_a_runtime_error:
  "fst (main_wait_external_ip 5 scripted ''p'' ''z'' ''flask-vm'' (start never_an_address))
     = Raises (RuntimeError (JStr ''Timed out waiting for external IP''))
   \<and> fst (p1_wait_for_zone_op 1 scripted ''p'' ''z'' (JStr ''op'') (start timeout_like_failure))
     = Raises (RuntimeError (JStr ''Timed out waiting for external IP''))"
  by (simp add: never_an_address_def timeout_like_failure_def instance_without_ip_def
      p1_wait_for_zone_op_def discard_apply p1_instance_get_def catch_def
      scripted_def start_def call_def seq_def raise_def ret_def lift_def timed_out_def
      get_external_ip_first_nat_ip eval_nat_numeral)

text \<open>
  Claim C5, as amended. Let the provider answer the first \<open>k\<close> lookups of the instance (a
  description, or 404) without exposing an address; a description with a missing field
  exposes none and is no error. With a budget of \<open>n = k\<close> attempts the wait makes exactly
  \<open>n\<close> lookups and then raises \<^verbatim>\<open>RuntimeError("Timed out waiting for external IP")\<close>
  (told from a failed operation by its argument only). With a budget \<open>n > k\<close> and an
  address in the next answer, it returns that address after exactly \<open>k + 1\<close> lookups.
\<close>

theorem readiness_wait_bounded:
  assumes "req = InstancesGet project zone instance"
    and "\<forall>i<k. answered (nth_response exec req i s) \<and>
               \<not> py_truthy (address_in (nth_response exec req i s))"
  shows "(k = n \<longrightarrow>
            main_wait_external_ip n exec project zone instance s =
              (Raises (RuntimeError (JStr ''Timed out waiting for external IP'')),
               after_calls exec req n s) \<and>
            requests (added s (after_calls exec req n s)) = replicate n req) \<and>
         (k < n \<and> answered (nth_response exec req k s) \<and>
            py_truthy (address_in (nth_response exec req k s)) \<longrightarrow>
            main_wait_external_ip n exec project zone instance s =
              (Returns (address_in (nth_response exec req k s)), after_calls exec req (Suc k) s) \<and>
            requests (added s (after_calls exec req (Suc k) s)) = replicate (Suc k) req)"
  using assms wait_times_out[of n exec project zone "instance" s]
    wait_finds_address[of k exec project zone "instance" s n]
    requests_after_calls[of s exec req n] requests_after_calls[of s exec req "Suc k"]
  by (simp add: timed_out_def
      del: main_wait_external_ip.simps replicate.simps after_calls.simps)

theorem readiness_wait_bounded_witness:
  "main_wait_external_ip 5 scripted ''p'' ''z'' ''flask-vm'' (start never_an_address)
     = (Raises (RuntimeError (JStr ''Timed out waiting for external IP'')),
        after_calls scripted (InstancesGet ''p'' ''z'' ''flask-vm'') 5 (start never_an_address))
   \<and> requests (trace (after_calls scripted (InstancesGet ''p'' ''z'' ''flask-vm'') 5 (start never_an_address)))
     = replicate 5 (InstancesGet ''p'' ''z'' ''flask-vm'')
   \<and> main_wait_external_ip 5 scripted ''p'' ''z'' ''flask-vm'' (start address_on_third)
     = (Returns (JStr ''34.1.2.3''),
        after_calls scripted (InstancesGet ''p'' ''z'' ''flask-vm'') 3 (start address_on_third))
   \<and> requests (trace (after_calls scripted (InstancesGet ''p'' ''z'' ''flask-vm'') 3 (start address_on_third)))
     = replicate 3 (InstancesGet ''p'' ''z'' ''flask-vm'')"
  using readiness_wait_bounded[of "InstancesGet ''p'' ''z'' ''flask-vm''" "''p''" "''z''" "''flask-vm''"
      5 scripted "start never_an_address" 5]
    readiness_wait_bounded[of "InstancesGet ''p'' ''z'' ''flask-vm''" "''p''" "''z''" "''flask-vm''"
      2 scripted "start address_on_third" 5]
  by (simp add: All_less_Suc nth_response_def never_an_address_def address_on_third_def
      instance_without_ip_def instance_with_ip_def scripted_def start_def call_def added_def
      eval_nat_numeral del: main_wait_external_ip.simps)

section \<open>A base instance without a boot disk (C9)\<close>

lemma find_boot_disk_none:
  "\<not> list_ex marked_boot ds \<Longrightarrow>
     (\<exists>e. find_boot_disk ds = Inl e) \<or> find_boot_disk ds = Inr JNull"
proof (induction ds)
  case Nil
  show ?case by simp
next
  case (Cons d ds)
  then show ?case
    by (cases d) (auto split: option.splits)
qed

lemma find_boot_disk_plain:
  "\<not> list_ex marked_boot ds \<Longrightarrow> list_all is_dict ds \<Longrightarrow> find_boot_disk ds = Inr JNull"
proof (induction ds)
  case Nil
  show ?case by simp
next
  case (Cons d ds)
  then show ?case
    by (cases d) (auto split: option.splits)
qed

lemma find_boot_disk_strings:
  "find_boot_disk (map (\<lambda>x. JStr (f x)) xs) = (if xs = [] then Inr JNull else Inl AttributeError)"
  by (cases xs) simp_all

lemma boot_disk_name_none:
  assumes "\<not> has_boot_disk inst"
  shows "\<exists>e. boot_disk_name inst = Inl e \<and> (plain_disks inst \<longrightarrow> e = no_boot_disk)"
proof (cases inst)
  case (JDict kvs)
  show ?thesis
  proof (cases "map_of kvs ''disks''")
    case None
    with JDict show ?thesis by (simp add: boot_disk_name_def and_then_def)
  next
    case (Some disks)
    show ?thesis
    proof (cases disks)
      case (JList ds)
      with JDict Some assms have nb: "\<not> list_ex marked_boot ds"
        by (simp add: has_boot_disk_def)
      from find_boot_disk_none[OF nb] find_boot_disk_plain[OF nb]
      show ?thesis using JDict Some JList
        by (auto simp: boot_disk_name_def and_then_def)
    next
      case (JDict kv)
      with \<open>inst = JDict kvs\<close> Some show ?thesis
        using find_boot_disk_strings[of fst kv]
        by (auto simp: boot_disk_name_def and_then_def)
    next
      case (JStr str)
      with \<open>inst = JDict kvs\<close> Some show ?thesis
        using find_boot_disk_strings[of "\<lambda>c. [c]" str]
        by (auto simp: boot_disk_name_def and_then_def)
    qed (use \<open>inst = JDict kvs\<close> Some in \<open>simp_all add: boot_disk_name_def and_then_def\<close>)
  qed
qed (simp_all add: boot_disk_name_def and_then_def)

text \<open>
  Claim C9. When the description of the base instance has no disk marked as the boot
  disk, \<open>create_snapshot_from_instance_boot_disk\<close> raises after the lookup of the
  instance and nothing else: no snapshot lookup and no snapshot creation is issued, and
  the remote state is the one that lookup left (the error is "Could not find boot disk on
  instance" when the disks are a list of dictionaries). When the lookup of the base
  instance itself fails, a 404 included, that failure leaves the function unchanged and no
  further call is made.
\<close>

theorem snapshot_needs_boot_disk:
  assumes "req = InstancesGet project zone base_instance"
    and "s' = after_calls exec req (Suc 0) s"
  shows "(nth_response exec req 0 s = Inr inst \<and> \<not> has_boot_disk inst \<longrightarrow>
            (\<exists>e. create_snapshot_from_instance_boot_disk fuel exec project zone base_instance s
                   = (Raises e, s') \<and>
                 (plain_disks inst \<longrightarrow>
                    e = RuntimeError (JStr ''Could not find boot disk on instance''))) \<and>
            added s s' = [(req, Inr inst)] \<and>
            filter is_snapshot_call (requests (added s s')) = []) \<and>
         (nth_response exec req 0 s = Inl err \<longrightarrow>
            create_snapshot_from_instance_boot_disk fuel exec project zone base_instance s
              = (Raises err, s') \<and>
            added s s' = [(req, Inl err)])"
proof -
  have tr: "added s s' = [(req, nth_response exec req 0 s)]"
    using assms(2) by (simp add: added_def trace_call nth_response_def)
  have s': "s' = snd (call exec req s)"
    using assms(2) by simp
  show ?thesis
    using tr boot_disk_name_none[of inst] assms(1)
    by (auto simp: s' requests_def no_boot_disk_def create_snapshot_from_instance_boot_disk_def
        p2_instance_get_def seq_call seq_lift)
qed

theorem snapshot_needs_boot_disk_witness:
  "create_snapshot_from_instance_boot_disk 1 scripted ''p'' ''us-west1-b'' ''flask-vm''
       (start [Inr instance_without_boot_disk])
     = (Raises (RuntimeError (JStr ''Could not find boot disk on instance'')),
        after_calls scripted (InstancesGet ''p'' ''us-west1-b'' ''flask-vm'') (Suc 0)
          (start [Inr instance_without_boot_disk]))
   \<and> requests (trace (after_calls scripted (InstancesGet ''p'' ''us-west1-b'' ''flask-vm'') (Suc 0)
          (start [Inr instance_without_boot_disk])))
     = [InstancesGet ''p'' ''us-west1-b'' ''flask-vm'']
   \<and> create_snapshot_from_instance_boot_disk 1 scripted ''p'' ''us-west1-b'' ''flask-vm''
       (start [Inl (HttpError 404 ''not found'')])
     = (Raises (HttpError 404 ''not found''),
        after_calls scripted (InstancesGet ''p'' ''us-west1-b'' ''flask-vm'') (Suc 0)
          (start [Inl (HttpError 404 ''not found'')]))"
  using snapshot_needs_boot_disk[of "InstancesGet ''p'' ''us-west1-b'' ''flask-vm''"
      "''p''" "''us-west1-b''" "''flask-vm''"
      "after_calls scripted (InstancesGet ''p'' ''us-west1-b'' ''flask-vm'') (Suc 0)
          (start [Inr instance_without_boot_disk])"
      scripted "start [Inr instance_without_boot_disk]" instance_without_boot_disk 1]
    snapshot_needs_boot_disk[of "InstancesGet ''p'' ''us-west1-b'' ''flask-vm''"
      "''p''" "''us-west1-b''" "''flask-vm''"
      "after_calls scripted (InstancesGet ''p'' ''us-west1-b'' ''flask-vm'') (Suc 0)
          (start [Inl (HttpError 404 ''not found'')])"
      scripted "start [Inl (HttpError 404 ''not found'')]" _ _ "HttpError 404 ''not found''"]
  by (simp add: nth_response_def scripted_def start_def call_def added_def requests_def
      has_boot_disk_def instance_without_boot_disk_def)

section \<open>What a run appends to the trace\<close>

lemma appendsI:
  "(\<And>s. \<exists>evs. trace (snd (m s)) = trace s @ evs \<and> list_all P evs) \<Longrightarrow> appends P m"
  by (simp add: appends_def)

lemma appendsD:
  "appends P m \<Longrightarrow> \<exists>evs. trace (snd (m s)) = trace s @ evs \<and> list_all P evs"
  by (simp add: appends_def)










lemma appends_mono:
  assumes "appends P m" and "\<And>ev. P ev \<Longrightarrow> Q ev"
  shows "appends Q m"
proof (rule appendsI)
  fix s
  from appendsD[OF assms(1), of s] obtain evs where
    "trace (snd (m s)) = trace s @ evs" "list_all P evs" by auto
  moreover from this(2) assms(2) have "list_all Q evs" by (auto simp: list_all_iff)
  ultimately show "\<exists>evs. trace (snd (m s)) = trace s @ evs \<and> list_all Q evs" by blast
qed


section \<open>The reconcile steps: found, absent, and twice in a row\<close>














section \<open>Reconciling twice creates once (C1)\<close>



section \<open>Which lookup failures lead to a creation (C2)\<close>

text \<open>
  The four lookups of part1.py and part2.py that guard a creation tell absence from
  failure: a description gives "found", a 404 gives "absent", and every other exception
  leaves the function as it came, after the one call.
\<close>

lemma lookup_outcome:
  "catch (call exec req) is_HttpError (on_404 absent) s =
     ((case nth_response exec req 0 s of
         Inr v \<Rightarrow> Returns v
       | Inl e \<Rightarrow> if answered (Inl e) then Returns absent else Raises e),
      snd (call exec req s))"
proof (cases "exec req (world s)")
  case (Pair r w)
  show ?thesis
  proof (cases r)
    case (Inr v)
    with Pair show ?thesis
      by (simp add: nth_response_def call_def catch_def)
  next
    case (Inl e)
    with Pair show ?thesis
      by (cases e) (simp_all add: nth_response_def call_def catch_def ret_def raise_def)
  qed
qed

lemma exists_outcome:
  "catch (seq (call exec req) (\<lambda>_. ret True)) is_HttpError (on_404 False) s =
     ((case nth_response exec req 0 s of
         Inr v \<Rightarrow> Returns True
       | Inl e \<Rightarrow> if answered (Inl e) then Returns False else Raises e),
      snd (call exec req s))"
proof (cases "exec req (world s)")
  case (Pair r w)
  show ?thesis
  proof (cases r)
    case (Inr v)
    with Pair show ?thesis
      by (simp add: nth_response_def call_def catch_def seq_def ret_def)
  next
    case (Inl e)
    with Pair show ?thesis
      by (cases e) (simp_all add: nth_response_def call_def catch_def seq_def ret_def raise_def)
  qed
qed

lemma lookups_tell_absence_from_failure:
  "firewall_exists exec project name s =
     ((case nth_response exec (FirewallsGet project name) 0 s of
         Inr v \<Rightarrow> Returns True
       | Inl e \<Rightarrow> if answered (Inl e) then Returns False else Raises e),
      snd (call exec (FirewallsGet project name) s))"
  "instance_exists exec project zone name s =
     ((case nth_response exec (InstancesGet project zone name) 0 s of
         Inr v \<Rightarrow> Returns True
       | Inl e \<Rightarrow> if answered (Inl e) then Returns False else Raises e),
      snd (call exec (InstancesGet project zone name) s))"
  "p1_instance_get exec project zone name s =
     ((case nth_response exec (InstancesGet project zone name) 0 s of
         Inr v \<Rightarrow> Returns v
       | Inl e \<Rightarrow> if answered (Inl e) then Returns JNull else Raises e),
      snd (call exec (InstancesGet project zone name) s))"
  "snapshot_get exec project name s =
     ((case nth_response exec (SnapshotsGet project name) 0 s of
         Inr v \<Rightarrow> Returns v
       | Inl e \<Rightarrow> if answered (Inl e) then Returns JNull else Raises e),
      snd (call exec (SnapshotsGet project name) s))"
  by (simp_all add: firewall_exists_def instance_exists_def p1_instance_get_def snapshot_get_def
      lookup_outcome exists_outcome)

text \<open>
  Claim C2, at the input where the code departs from it. On VM1, the firewall step of
  vm1-launch-vm2.py catches \<^verbatim>\<open>Exception\<close>: when the lookup of the firewall fails with
  403, the step goes on to create the firewall and reports success, and the failure of
  the lookup is lost. On the same responses \<open>ensure_firewall_allow_5000\<close> of part1.py
  stops at the lookup and raises the 403 unchanged.
\<close>

theorem vm1_firewall_created_after_failed_lookup:
  "\<forall>str_of.
     vm1_ensure_firewall str_of 1 scripted ''p'' (start forbidden_then_created)
       = (Returns (),
          \<lparr>world = [],
           trace = [(FirewallsGet ''p'' ''allow-5001'', Inl (HttpError 403 ''forbidden'')),
                    (FirewallsInsert ''p'' vm1_firewall_body, Inr (JDict [(''name'', JStr ''operation-1'')])),
                    (GlobalOperationsGet ''p'' (JStr ''operation-1''),
                       Inr (JDict [(''status'', JStr ''DONE'')]))]\<rparr>)
   \<and> ensure_firewall_allow_5000 1 scripted ''p'' ''allow-5001'' (start forbidden_then_created)
       = (Raises (HttpError 403 ''forbidden''),
          \<lparr>world = [Inr (JDict [(''name'', JStr ''operation-1'')]),
                    Inr (JDict [(''status'', JStr ''DONE'')])],
           trace = [(FirewallsGet ''p'' ''allow-5001'', Inl (HttpError 403 ''forbidden''))]\<rparr>)"
  by (simp add: vm1_ensure_firewall_def vm1_inline_global_wait_def ensure_firewall_allow_5000_def
      firewall_exists_def run_defs forbidden_then_created_def)

section \<open>The boot source of every creation request\<close>

























section \<open>Exactly one boot source per creation request (C4)\<close>




section \<open>The clone loop, one instance at a time\<close>




section \<open>The clones are named and made in order (C7)\<close>



section \<open>The monitor of the snapshot order\<close>















section \<open>The snapshot is awaited before the clones (C8)\<close>



end
